theory Spec2Isabelle
  imports Main "HOL-Library.Word"
begin

section \<open>Data model\<close>

text \<open>
  The repository holds three variants of the API server and one stream script:
  \<^item> V1, \<^verbatim>\<open>src/unnamed/part_001\<close> lines 1-230 (port 3001);
  \<^item> V2, \<^verbatim>\<open>src/unnamed/part_001\<close> lines 230-581 (port 9003; V1 plus dependency
    installation, a Windows mock and saving each frame to disk);
  \<^item> V3, \<^verbatim>\<open>src/src/components/PredictionLog.tsx\<close> lines 172-506 (port 9003; the
    variant with \<^verbatim>\<open>systemErrors\<close>, \<^verbatim>\<open>addSystemError\<close>, the capture timer and
    \<^verbatim>\<open>/api/errors\<close>);
  \<^item> the stream script, \<^verbatim>\<open>src/unnamed/part_002\<close> (camera and resolution detection,
    MJPEG servers).
  The orchestrator is modelled from V3; where V1 differs in a function a claim is about,
  V1's function is modelled beside it under a name ending in \<open>_v1\<close>.
  Console output is not modelled.
\<close>

type_synonym bytes = "8 word list"

text \<open>A JSON value, as \<^verbatim>\<open>response.data\<close> and \<^verbatim>\<open>response.json()\<close> deliver it
  (numbers restricted to integers).\<close>

datatype json =
    JNull
  | JBool bool
  | JNumber int
  | JString string
  | JArray "json list"
  | JObject "(string \<times> json) list"

text \<open>JavaScript truthiness of a JSON value: \<^verbatim>\<open>null\<close>, \<^verbatim>\<open>false\<close>, \<^verbatim>\<open>0\<close> and
  \<^verbatim>\<open>""\<close> are falsy; every array and object is truthy, the empty ones too.\<close>

fun truthy :: "json \<Rightarrow> bool" where
  "truthy JNull = False"
| "truthy (JBool b) = b"
| "truthy (JNumber n) = (n \<noteq> 0)"
| "truthy (JString s) = (s \<noteq> [])"
| "truthy (JArray xs) = True"
| "truthy (JObject kvs) = True"

text \<open>The camera descriptor of \<^verbatim>\<open>detectCameras\<close>
  (\<^verbatim>\<open>{id, device, streamPort, streamUrl}\<close>); \<^verbatim>\<open>id\<close> is HOL's identity, hence \<open>cam_id\<close>.\<close>

record camera =
  cam_id :: nat
  device :: string
  streamPort :: nat
  streamUrl :: string

text \<open>The object built in \<^verbatim>\<open>sendPrediction\<close>. The model is
  \<^verbatim>\<open>currentModels[currentModelIndex]\<close>, which is \<^verbatim>\<open>undefined\<close> (\<open>None\<close>) out of
  range. The timestamp is the clock reading in milliseconds that
  \<^verbatim>\<open>new Date().toISOString()\<close> prints.\<close>

record prediction =
  cameraId :: nat
  model :: "string option"
  timestamp :: nat
  result :: json

text \<open>The messages the server builds for \<^verbatim>\<open>addSystemError\<close> and for rejecting the
  capture promise, kept as structured values instead of formatted text:
  \<^item> \<open>CaptureFailed id code stderr\<close>: \<^verbatim>\<open>Failed to capture frame from MJPEG stream for
    camera ${id}. Exit code: ${code}. Stderr: ${stderrOutput.trim()}\<close> (the exit code is
    \<^verbatim>\<open>null\<close>, \<open>None\<close>, when a signal ended the process);
  \<^item> \<open>FFmpegError id msg\<close>: \<^verbatim>\<open>FFmpeg error for camera ${id}: ${err.message}\<close>;
  \<^item> \<open>TimeoutCapturing id\<close>: \<^verbatim>\<open>Timeout capturing frame from camera ${id}\<close>;
  \<^item> \<open>CameraCaptureFailed id e\<close>: \<^verbatim>\<open>Camera ${id} capture failed: ${error.message}\<close>.\<close>

datatype errmsg =
    CaptureFailed nat "int option" string
  | FFmpegError nat string
  | TimeoutCapturing nat
  | CameraCaptureFailed nat errmsg

text \<open>The entry built in \<^verbatim>\<open>addSystemError\<close>: \<^verbatim>\<open>{cameraId, error, timestamp}\<close>.\<close>

record errorEntry =
  err_cameraId :: nat
  err_error :: errmsg
  err_timestamp :: nat

section \<open>The bounded buffers\<close>

text \<open>\<^verbatim>\<open>predictions.unshift(prediction); if (predictions.length > 100) predictions =
  predictions.slice(0, 100)\<close> (\<^verbatim>\<open>sendPrediction\<close>, the same in V1, V2 and V3).\<close>

definition addPrediction :: "prediction \<Rightarrow> prediction list \<Rightarrow> prediction list" where
  "addPrediction p ps =
     (let ps' = p # ps in if length ps' > 100 then take 100 ps' else ps')"

text \<open>\<^verbatim>\<open>addSystemError(cameraId, error)\<close> of V3 (lines 203-213 of its file), with the
  clock reading \<open>now\<close>.\<close>

definition addSystemError :: "nat \<Rightarrow> nat \<Rightarrow> errmsg \<Rightarrow> errorEntry list \<Rightarrow> errorEntry list" where
  "addSystemError now cid e es =
     (let es' = \<lparr>err_cameraId = cid, err_error = e, err_timestamp = now\<rparr> # es
      in if length es' > 50 then take 50 es' else es')"

section \<open>The model roster\<close>

text \<open>What \<^verbatim>\<open>axios.get\<close> delivers: a rejection (transport error or non-2xx status) or the
  parsed body \<^verbatim>\<open>response.data\<close>.\<close>

datatype 'a fetched = Rejected string | Fulfilled 'a

definition defaultModels :: json where
  "defaultModels = JArray [JString ''bacterial-disease'', JString ''early-blight'']"

text \<open>\<^verbatim>\<open>getModelList\<close> of V1 and V2:
  \<^verbatim>\<open>return response.data || ["bacterial-disease", "early-blight"]\<close>, and the same
  default in the \<^verbatim>\<open>catch\<close>.\<close>

fun getModelList_v1 :: "json fetched \<Rightarrow> json" where
  "getModelList_v1 (Rejected e) = defaultModels"
| "getModelList_v1 (Fulfilled d) = (if truthy d then d else defaultModels)"

text \<open>\<^verbatim>\<open>getModelList\<close> of V3: \<^verbatim>\<open>return response.data || []\<close>; the default only in the
  \<^verbatim>\<open>catch\<close>.\<close>

fun getModelList :: "json fetched \<Rightarrow> json" where
  "getModelList (Rejected e) = defaultModels"
| "getModelList (Fulfilled d) = (if truthy d then d else JArray [])"

text \<open>\<^verbatim>\<open>currentModels.length\<close> for the value \<^verbatim>\<open>initialize\<close> stores in
  \<^verbatim>\<open>currentModels\<close>: arrays and strings have a length, other values have none
  (\<^verbatim>\<open>undefined\<close>).\<close>

fun js_length :: "json \<Rightarrow> nat option" where
  "js_length (JArray xs) = Some (length xs)"
| "js_length (JString s) = Some (length s)"
| "js_length _ = None"

section \<open>Single-frame capture\<close>

text \<open>What the capture subprocess and the capture timer deliver to the handlers that
  \<^verbatim>\<open>captureFrame\<close> registers: a chunk on stdout, a chunk on stderr, \<^verbatim>\<open>'close'\<close> with
  the exit code (\<^verbatim>\<open>null\<close>, \<open>None\<close>, after a signal), \<^verbatim>\<open>'error'\<close> with its message,
  and the expiry of the \<^verbatim>\<open>setTimeout(..., 10000)\<close> timer.\<close>

datatype proc_event =
    Stdout bytes
  | Stderr string
  | Close "int option"
  | ProcError string
  | TimerExpired

text \<open>The variables of one \<^verbatim>\<open>captureFrame\<close> call of V3 (lines 292-378 of the file):
  \<^verbatim>\<open>imageBuffer\<close>, \<^verbatim>\<open>hasData\<close>, \<^verbatim>\<open>stderrOutput\<close>, the state of the returned promise
  (\<open>None\<close> pending, \<open>Inl\<close> rejected, \<open>Inr\<close> resolved) and whether
  \<^verbatim>\<open>ffmpeg.kill('SIGTERM')\<close> has been called.\<close>

record capture =
  imageBuffer :: bytes
  hasData :: bool
  stderrOutput :: string
  settled :: "(errmsg + bytes) option"
  killed :: bool

text \<open>\<^verbatim>\<open>String.prototype.trim\<close> on text whose characters have codes below 256: tab, line
  feed, vertical tab, form feed, carriage return, space and no-break space are removed
  from both ends.\<close>

definition isSpace :: "char \<Rightarrow> bool" where
  "isSpace c = (of_char c \<in> {9, 10, 11, 12, 13, 32, 160 :: nat})"

definition trim :: "string \<Rightarrow> string" where
  "trim s = rev (dropWhile isSpace (rev (dropWhile isSpace s)))"

definition spawnCapture :: capture where
  "spawnCapture =
     \<lparr>imageBuffer = [], hasData = False, stderrOutput = [], settled = None, killed = False\<rparr>"

text \<open>\<^verbatim>\<open>resolve\<close> and \<^verbatim>\<open>reject\<close>: a promise settles once, later calls do nothing.\<close>

definition settle :: "errmsg + bytes \<Rightarrow> capture \<Rightarrow> capture" where
  "settle r c = (if settled c = None then c\<lparr>settled := Some r\<rparr> else c)"

text \<open>The handlers of V3's \<^verbatim>\<open>captureFrame\<close> for camera id \<open>cid\<close>. The second component
  is the message handed to \<^verbatim>\<open>addSystemError\<close>, if any. \<^verbatim>\<open>STORE_IMAGES_TO_TMP\<close> is the
  constant \<^verbatim>\<open>false\<close>, so the success branch of \<^verbatim>\<open>'close'\<close> only resolves.\<close>

fun onCapture :: "nat \<Rightarrow> proc_event \<Rightarrow> capture \<Rightarrow> capture \<times> errmsg option" where
  "onCapture cid (Stdout d) c =
     (c\<lparr>imageBuffer := imageBuffer c @ d, hasData := True\<rparr>, None)"
| "onCapture cid (Stderr t) c = (c\<lparr>stderrOutput := stderrOutput c @ t\<rparr>, None)"
| "onCapture cid (Close code) c =
     (if code = Some 0 \<and> hasData c \<and> length (imageBuffer c) > 0
      then (settle (Inr (imageBuffer c)) c, None)
      else (settle (Inl (CaptureFailed cid code (trim (stderrOutput c)))) c,
            Some (CaptureFailed cid code (trim (stderrOutput c)))))"
| "onCapture cid (ProcError msg) c =
     (settle (Inl (FFmpegError cid msg)) c, Some (FFmpegError cid msg))"
| "onCapture cid TimerExpired c =
     (if \<not> hasData c
      then (settle (Inl (TimeoutCapturing cid)) (c\<lparr>killed := True\<rparr>),
            Some (TimeoutCapturing cid))
      else (c, None))"

text \<open>One \<^verbatim>\<open>captureFrame(camera)\<close> call of V3 after the events \<open>evs\<close>, in the order
  they were delivered.\<close>

definition captureFrame :: "nat \<Rightarrow> proc_event list \<Rightarrow> capture" where
  "captureFrame cid evs = fold (\<lambda>e c. fst (onCapture cid e c)) evs spawnCapture"

text \<open>Output of a subprocess that is still running: the events before \<^verbatim>\<open>'close'\<close>,
  \<^verbatim>\<open>'error'\<close> and the timer.\<close>

fun isOutput :: "proc_event \<Rightarrow> bool" where
  "isOutput (Stdout d) = True"
| "isOutput (Stderr t) = True"
| "isOutput _ = False"

fun isStdout :: "proc_event \<Rightarrow> bool" where
  "isStdout (Stdout d) = True"
| "isStdout _ = False"

text \<open>V1's \<^verbatim>\<open>captureFrame\<close> (\<^verbatim>\<open>src/unnamed/part_001\<close> lines 92-121) registers handlers
  for stdout, stderr and \<^verbatim>\<open>'close'\<close> only, and sets no timer. It rejects with
  \<^verbatim>\<open>FFmpeg exited with code ${code}\<close>, kept here as the code.\<close>

datatype proc_event_v1 =
    Stdout_v1 bytes
  | Stderr_v1 string
  | Close_v1 "int option"

record capture_v1 =
  imageBuffer_v1 :: bytes
  settled_v1 :: "(int option + bytes) option"

fun onCapture_v1 :: "proc_event_v1 \<Rightarrow> capture_v1 \<Rightarrow> capture_v1" where
  "onCapture_v1 (Stdout_v1 d) c = c\<lparr>imageBuffer_v1 := imageBuffer_v1 c @ d\<rparr>"
| "onCapture_v1 (Stderr_v1 t) c = c"
| "onCapture_v1 (Close_v1 code) c =
     (if settled_v1 c \<noteq> None then c
      else if code = Some 0 then c\<lparr>settled_v1 := Some (Inr (imageBuffer_v1 c))\<rparr>
      else c\<lparr>settled_v1 := Some (Inl code)\<rparr>)"

fun isClose_v1 :: "proc_event_v1 \<Rightarrow> bool" where
  "isClose_v1 (Close_v1 code) = True"
| "isClose_v1 _ = False"

definition captureFrame_v1 :: "proc_event_v1 list \<Rightarrow> capture_v1" where
  "captureFrame_v1 evs =
     fold onCapture_v1 evs \<lparr>imageBuffer_v1 = [], settled_v1 = None\<rparr>"

section \<open>The prediction loop\<close>

text \<open>What \<^verbatim>\<open>fetch\<close> and \<^verbatim>\<open>response.json()\<close> deliver in \<^verbatim>\<open>sendPrediction\<close>: a
  transport failure, or a response with its status and its body parsed as JSON (\<open>None\<close>
  when parsing throws). The two awaits are taken as one event: nothing is written
  between them.\<close>

datatype http = NetworkError string | Response nat "json option"

text \<open>The value \<^verbatim>\<open>sendPrediction\<close> reaches past \<^verbatim>\<open>if (!response.ok) throw\<close> and
  \<^verbatim>\<open>await response.json()\<close>; \<open>None\<close> when either throws into the \<^verbatim>\<open>catch\<close>.\<close>

fun fetchResult :: "http \<Rightarrow> json option" where
  "fetchResult (NetworkError e) = None"
| "fetchResult (Response st body) = (if 200 \<le> st \<and> st \<le> 299 then body else None)"

text \<open>Where the arrow function that \<^verbatim>\<open>predictionLoop\<close> maps over the cameras stands for
  one camera: at \<^verbatim>\<open>await captureFrame(camera)\<close>, at the \<^verbatim>\<open>await fetch\<close> inside
  \<^verbatim>\<open>sendPrediction\<close>, or returned.\<close>

datatype stage = AwaitCapture | AwaitFetch | Returned

record task =
  cap :: capture
  stage :: stage

text \<open>One call of \<^verbatim>\<open>predictionLoop\<close> that got past its guard: the \<^verbatim>\<open>currentModel\<close> it
  read and one task per camera, in the order of \<^verbatim>\<open>cameras\<close>.\<close>

record tick =
  tickModel :: "string option"
  tasks :: "task list"

text \<open>The module variables of V3 (lines 197-201 of its file) and, oldest first, the calls
  of \<^verbatim>\<open>predictionLoop\<close> started so far, which the program holds in closures.\<close>

record server =
  cameras :: "camera list"
  currentModels :: "string list"
  currentModelIndex :: nat
  predictions :: "prediction list"
  systemErrors :: "errorEntry list"
  ticks :: "tick list"

text \<open>\<^verbatim>\<open>xs[i]\<close>: \<^verbatim>\<open>undefined\<close> out of range.\<close>

definition nth_opt :: "'a list \<Rightarrow> nat \<Rightarrow> 'a option" where
  "nth_opt xs i = (if i < length xs then Some (xs ! i) else None)"

definition set_task :: "nat \<Rightarrow> nat \<Rightarrow> task \<Rightarrow> server \<Rightarrow> server" where
  "set_task t c k s =
     s\<lparr>ticks := (ticks s)[t := (ticks s ! t)\<lparr>tasks := (tasks (ticks s ! t))[c := k]\<rparr>]\<rparr>"

text \<open>\<^verbatim>\<open>await Promise.all(predictionPromises)\<close> continues once every arrow function has
  returned.\<close>

definition tick_done :: "tick \<Rightarrow> bool" where
  "tick_done tk = list_all (\<lambda>k. stage k = Returned) (tasks tk)"

text \<open>The arrow function of camera \<open>c\<close> in call \<open>t\<close> returns. If it was the last one of
  its call, \<^verbatim>\<open>Promise.all\<close> resolves and \<^verbatim>\<open>predictionLoop\<close> runs its last line,
  \<^verbatim>\<open>currentModelIndex = (currentModelIndex + 1) % currentModels.length\<close>, before any
  other event is handled. (A call exists only when the roster is not empty, so the
  modulus is positive.)\<close>

definition finish :: "nat \<Rightarrow> nat \<Rightarrow> server \<Rightarrow> server" where
  "finish t c s =
     (let s' = set_task t c ((tasks (ticks s ! t) ! c)\<lparr>stage := Returned\<rparr>) s
      in if tick_done (ticks s' ! t)
         then s'\<lparr>currentModelIndex :=
                   (currentModelIndex s' + 1) mod length (currentModels s')\<rparr>
         else s')"

text \<open>\<^verbatim>\<open>sendPrediction\<close> of V3 (lines 380-420) from the point where \<^verbatim>\<open>fetch\<close> has settled: on success
  the record is unshifted and the buffer cut to 100; on failure the \<^verbatim>\<open>catch\<close> logs and
  returns \<^verbatim>\<open>null\<close>.\<close>

definition sendPrediction :: "nat \<Rightarrow> camera \<Rightarrow> string option \<Rightarrow> http \<Rightarrow> server \<Rightarrow> server" where
  "sendPrediction now cam m h s =
     (case fetchResult h of
        None \<Rightarrow> s
      | Some r \<Rightarrow>
          s\<lparr>predictions :=
              addPrediction \<lparr>cameraId = cam_id cam, model = m, timestamp = now, result = r\<rparr>
                (predictions s)\<rparr>)"

text \<open>What the event loop runs: the \<^verbatim>\<open>setInterval(predictionLoop, 2000)\<close> callback, an
  event of the capture of camera index \<open>c\<close> in call \<open>t\<close>, or the settling of that
  camera's \<^verbatim>\<open>fetch\<close>.\<close>

datatype event =
    TimerFires
  | Proc nat nat proc_event
  | FetchSettles nat nat http

text \<open>\<^verbatim>\<open>predictionLoop\<close> of V3 (lines 422-445; V1 and V2 differ only in the \<^verbatim>\<open>catch\<close>,
  which there only logs) up to its \<^verbatim>\<open>await\<close>: the guard, the model read, and one
  \<^verbatim>\<open>captureFrame\<close> started per camera.\<close>

definition predictionLoop :: "server \<Rightarrow> server" where
  "predictionLoop s =
     (if cameras s = [] \<or> currentModels s = [] then s
      else s\<lparr>ticks := ticks s @
               [\<lparr>tickModel = nth_opt (currentModels s) (currentModelIndex s),
                 tasks = map (\<lambda>cam. \<lparr>cap = spawnCapture, stage = AwaitCapture\<rparr>) (cameras s)\<rparr>]\<rparr>)"

text \<open>A capture event of camera index \<open>c\<close> in call \<open>t\<close>: the handler runs (and may add a
  system error); if that settles the promise the arrow function is waiting on, the
  function goes on to \<^verbatim>\<open>sendPrediction\<close>, or into its \<^verbatim>\<open>catch\<close>, which adds
  \<^verbatim>\<open>Camera ${id} capture failed: ...\<close> and returns \<^verbatim>\<open>null\<close>.\<close>

definition onProc :: "nat \<Rightarrow> nat \<Rightarrow> nat \<Rightarrow> proc_event \<Rightarrow> server \<Rightarrow> server" where
  "onProc now t c e s =
     (let k = tasks (ticks s ! t) ! c;
          cid = cam_id (cameras s ! c);
          r = onCapture cid e (cap k);
          s1 = (case snd r of
                  None \<Rightarrow> s
                | Some m \<Rightarrow> s\<lparr>systemErrors := addSystemError now cid m (systemErrors s)\<rparr>);
          s2 = set_task t c (k\<lparr>cap := fst r\<rparr>) s1
      in if stage k = AwaitCapture
         then (case settled (fst r) of
                 None \<Rightarrow> s2
               | Some (Inr img) \<Rightarrow> set_task t c \<lparr>cap = fst r, stage = AwaitFetch\<rparr> s2
               | Some (Inl m) \<Rightarrow>
                   finish t c
                     (s2\<lparr>systemErrors :=
                          addSystemError now cid (CameraCaptureFailed cid m) (systemErrors s2)\<rparr>))
         else s2)"

definition onFetch :: "nat \<Rightarrow> nat \<Rightarrow> nat \<Rightarrow> http \<Rightarrow> server \<Rightarrow> server" where
  "onFetch now t c h s =
     (if stage (tasks (ticks s ! t) ! c) = AwaitFetch
      then finish t c (sendPrediction now (cameras s ! c) (tickModel (ticks s ! t)) h s)
      else s)"

text \<open>One turn of the event loop at clock reading \<open>now\<close>. An event that names a call or
  a camera that does not exist cannot occur and changes nothing.\<close>

fun step :: "nat \<Rightarrow> event \<Rightarrow> server \<Rightarrow> server" where
  "step now TimerFires s = predictionLoop s"
| "step now (Proc t c e) s =
     (if t < length (ticks s) \<and> c < length (tasks (ticks s ! t)) \<and> c < length (cameras s)
      then onProc now t c e s else s)"
| "step now (FetchSettles t c h) s =
     (if t < length (ticks s) \<and> c < length (tasks (ticks s ! t)) \<and> c < length (cameras s)
      then onFetch now t c h s else s)"

definition run :: "(nat \<times> event) list \<Rightarrow> server \<Rightarrow> server" where
  "run evs s = fold (\<lambda>(now, e). step now e) evs s"

text \<open>The state \<^verbatim>\<open>initialize\<close> leaves: the detected cameras, the roster, and the initial
  values of the other module variables.\<close>

definition initialize :: "camera list \<Rightarrow> string list \<Rightarrow> server" where
  "initialize cams models =
     \<lparr>cameras = cams, currentModels = models, currentModelIndex = 0,
      predictions = [], systemErrors = [], ticks = []\<rparr>"

text \<open>\<^verbatim>\<open>GET /api/status\<close> without \<^verbatim>\<open>uptime\<close>. \<^verbatim>\<open>currentModels[currentModelIndex] || null\<close>
  is \<^verbatim>\<open>null\<close> out of range and for the empty string.\<close>

record status =
  st_cameras :: nat
  st_models :: "string list"
  st_currentModel :: "string option"
  totalPredictions :: nat

definition api_status :: "server \<Rightarrow> status" where
  "api_status s =
     \<lparr>st_cameras = length (cameras s),
      st_models = currentModels s,
      st_currentModel =
        (case nth_opt (currentModels s) (currentModelIndex s) of
           None \<Rightarrow> None
         | Some m \<Rightarrow> if m = [] then None else Some m),
      totalPredictions = length (predictions s)\<rparr>"

text \<open>\<^verbatim>\<open>GET /api/errors\<close> and \<^verbatim>\<open>GET /api/predictions\<close> send the buffers as they are.\<close>

definition api_errors :: "server \<Rightarrow> errorEntry list" where
  "api_errors s = systemErrors s"

definition api_predictions :: "server \<Rightarrow> prediction list" where
  "api_predictions s = predictions s"

section \<open>Resolution detection (stream script)\<close>

text \<open>\<^verbatim>\<open>\d\<close> matches the ASCII digits.\<close>

definition isDigit :: "char \<Rightarrow> bool" where
  "isDigit c = (c \<in> set ''0123456789'')"

text \<open>\<^verbatim>\<open>\d{3,4}\<close> at the end of the pattern, greedy: the number of characters it
  takes at the start of \<open>s\<close>.\<close>

definition matchDigits34 :: "string \<Rightarrow> nat option" where
  "matchDigits34 s =
     (if 4 \<le> length s \<and> list_all isDigit (take 4 s) then Some 4
      else if 3 \<le> length s \<and> list_all isDigit (take 3 s) then Some 3
      else None)"

text \<open>\<^verbatim>\<open>\d{n}x\d{3,4}\<close> at the start of \<open>s\<close>: the length of the match.\<close>

definition matchResWith :: "nat \<Rightarrow> string \<Rightarrow> nat option" where
  "matchResWith n s =
     (if n < length s \<and> list_all isDigit (take n s) \<and> s ! n = CHR ''x''
      then map_option (\<lambda>m. n + 1 + m) (matchDigits34 (drop (n + 1) s))
      else None)"

text \<open>\<^verbatim>\<open>\d{3,4}x\d{3,4}\<close> at the start of \<open>s\<close>: four leading digits are tried first,
  three on backtracking.\<close>

definition matchRes :: "string \<Rightarrow> nat option" where
  "matchRes s = (case matchResWith 4 s of Some n \<Rightarrow> Some n | None \<Rightarrow> matchResWith 3 s)"



text \<open>\<^verbatim>\<open>str.split(d)\<close> for a one-character separator.\<close>

fun splitOn :: "char \<Rightarrow> string \<Rightarrow> string list" where
  "splitOn d [] = [[]]"
| "splitOn d (c # cs) =
     (if c = d then [] # splitOn d cs
      else (case splitOn d cs of
              w # ws \<Rightarrow> (c # w) # ws
            | [] \<Rightarrow> [[c]]))"



text \<open>\<^verbatim>\<open>Number\<close> on a string of decimal digits; only such strings reach it, the two
  halves of a match of \<^verbatim>\<open>\d{3,4}x\d{3,4}\<close>.\<close>

definition digitVal :: "char \<Rightarrow> nat" where
  "digitVal c = of_char c - 48"

definition Number :: "string \<Rightarrow> nat" where
  "Number s = fold (\<lambda>c n. 10 * n + digitVal c) s 0"

text \<open>\<^verbatim>\<open>{ res, width, height, pixels: width * height }\<close>.\<close>

record resolution =
  res :: string
  width :: nat
  height :: nat
  pixels :: nat

definition toResolution :: "string \<Rightarrow> resolution" where
  "toResolution r =
     (let parts = map Number (splitOn CHR ''x'' r);
          w = parts ! 0; h = parts ! 1
      in \<lparr>res = r, width = w, height = h, pixels = w * h\<rparr>)"








subsection \<open>The candidates, in the words of the specification\<close>






text \<open>At position \<open>i\<close> of the line stands \<^verbatim>\<open>Size: Discrete\<close> and a space, followed by a
  match of \<^verbatim>\<open>\d{3,4}x\d{3,4}\<close>.\<close>

definition discreteAt :: "string \<Rightarrow> nat \<Rightarrow> bool" where
  "discreteAt line i =
     (take 15 (drop i line) = ''Size: Discrete '' \<and>
      matchRes (drop 15 (drop i line)) \<noteq> None)"

section \<open>What is outstanding\<close>

text \<open>The calls of \<^verbatim>\<open>predictionLoop\<close> that have run their last line.\<close>

definition doneCount :: "server \<Rightarrow> nat" where
  "doneCount s = length (filter tick_done (ticks s))"


text \<open>The captures of camera index \<open>c\<close> whose promise is awaited, and the calls whose
  arrow function for that camera has not returned.\<close>

definition capturing :: "server \<Rightarrow> nat \<Rightarrow> nat" where
  "capturing s c =
     length (filter (\<lambda>tk. c < length (tasks tk) \<and> stage (tasks tk ! c) = AwaitCapture)
               (ticks s))"

definition inFlight :: "server \<Rightarrow> nat \<Rightarrow> nat" where
  "inFlight s c =
     length (filter (\<lambda>tk. c < length (tasks tk) \<and> stage (tasks tk ! c) \<noteq> Returned)
               (ticks s))"

section \<open>Example inputs\<close>

definition cam0 :: camera where
  "cam0 = \<lparr>cam_id = 0, device = ''/dev/video0'', streamPort = 20000,
           streamUrl = ''http://localhost:20000/stream''\<rparr>"

definition cam1 :: camera where
  "cam1 = \<lparr>cam_id = 1, device = ''/dev/video1'', streamPort = 20001,
           streamUrl = ''http://localhost:20001/stream''\<rparr>"

definition jpeg :: bytes where
  "jpeg = [0xFF, 0xD8, 0xFF, 0xD9]"

text \<open>One camera, roster \<open>[A]\<close>: the timer has fired, the capture has delivered a frame
  and exited with code 0, the upload is under way.\<close>

definition uploading :: server where
  "uploading =
     run [(2000, TimerFires), (2300, Proc 0 0 (Stdout jpeg)), (2400, Proc 0 0 (Close (Some 0)))]
       (initialize [cam0] [''A''])"

text \<open>The same with a full prediction buffer.\<close>

definition uploadingFull :: server where
  "uploadingFull =
     uploading\<lparr>predictions :=
       replicate 100 \<lparr>cameraId = 0, model = Some ''A'', timestamp = 0, result = JNull\<rparr>\<rparr>"

text \<open>One camera, roster \<open>[A, B, C]\<close>: the timer fires twice, 2000 ms apart, while the
  first capture is still running; both captures then exit with code 1; the timer fires a
  third time.\<close>

definition firstTick :: server where
  "firstTick = run [(2000, TimerFires)] (initialize [cam0] [''A'', ''B'', ''C''])"

definition overlapping :: server where
  "overlapping = step 4000 TimerFires firstTick"

definition afterOverlap :: server where
  "afterOverlap =
     run [(4500, Proc 0 0 (Close (Some 1))), (4600, Proc 1 0 (Close (Some 1))),
          (6000, TimerFires)] overlapping"

text \<open>The same camera and roster with every call finished before the next timer fire:
  the first capture fails, the second succeeds and its upload is answered.\<close>

definition inTurn :: "(nat \<times> event) list" where
  "inTurn =
     [(2000, TimerFires), (2500, Proc 0 0 (Close (Some 1))),
      (4000, TimerFires), (4300, Proc 1 0 (Stdout jpeg)), (4400, Proc 1 0 (Close (Some 0))),
      (4900, FetchSettles 1 0 (Response 200 (Some (JString ''healthy''))))]"

text \<open>Two cameras, roster \<open>[A, B]\<close>: the timer has fired; camera 1 has delivered a frame
  and is uploading, camera 0 is still capturing.\<close>

definition twoCams :: server where
  "twoCams =
     run [(2000, TimerFires), (2300, Proc 0 1 (Stdout jpeg)), (2400, Proc 0 1 (Close (Some 0)))]
       (initialize [cam0, cam1] [''A'', ''B''])"





section \<open>Properties of the buffers\<close>

lemma addPrediction_take: "addPrediction p ps = take 100 (p # ps)"
  by (simp add: addPrediction_def Let_def)

lemma addSystemError_take:
  "addSystemError now cid e es =
     take 50 (\<lparr>err_cameraId = cid, err_error = e, err_timestamp = now\<rparr> # es)"
  by (simp add: addSystemError_def Let_def)

lemma take_append_take: "take n (xs @ take n ys) = take n (xs @ ys)"
  by (simp add: min_def)

lemma fold_addPrediction:
  "length buf \<le> 100 \<Longrightarrow> fold addPrediction ps buf = take 100 (rev ps @ buf)"
proof (induction ps arbitrary: buf)
  case Nil
  then show ?case by simp
next
  case (Cons p ps)
  have len: "length (addPrediction p buf) \<le> 100"
    unfolding addPrediction_take by simp
  have "fold addPrediction (p # ps) buf = fold addPrediction ps (addPrediction p buf)"
    by simp
  also have "\<dots> = take 100 (rev ps @ addPrediction p buf)"
    by (rule Cons.IH [OF len])
  also have "\<dots> = take 100 (rev ps @ take 100 (p # buf))"
    unfolding addPrediction_take ..
  also have "\<dots> = take 100 (rev ps @ (p # buf))"
    by (rule take_append_take)
  finally show ?case by simp
qed

section \<open>How a step changes the module variables\<close>

lemmas ev_defs =
  run_def initialize_def predictionLoop_def onProc_def onFetch_def Let_def set_task_def
  spawnCapture_def settle_def nth_opt_def finish_def tick_done_def sendPrediction_def
  addPrediction_def addSystemError_def

lemma set_task_fields [simp]:
  "cameras (set_task t c k s) = cameras s"
  "currentModels (set_task t c k s) = currentModels s"
  "currentModelIndex (set_task t c k s) = currentModelIndex s"
  "predictions (set_task t c k s) = predictions s"
  "systemErrors (set_task t c k s) = systemErrors s"
  "length (ticks (set_task t c k s)) = length (ticks s)"
  by (simp_all add: set_task_def)

lemma finish_fields [simp]:
  "cameras (finish t c s) = cameras s"
  "currentModels (finish t c s) = currentModels s"
  "predictions (finish t c s) = predictions s"
  "systemErrors (finish t c s) = systemErrors s"
  "length (ticks (finish t c s)) = length (ticks s)"
  by (simp_all add: finish_def Let_def)

lemma sendPrediction_fields [simp]:
  "cameras (sendPrediction now cam m h s) = cameras s"
  "currentModels (sendPrediction now cam m h s) = currentModels s"
  "currentModelIndex (sendPrediction now cam m h s) = currentModelIndex s"
  "systemErrors (sendPrediction now cam m h s) = systemErrors s"
  "ticks (sendPrediction now cam m h s) = ticks s"
  by (simp_all add: sendPrediction_def split: option.splits)

lemma onProc_fields [simp]:
  "cameras (onProc now t c e s) = cameras s"
  "currentModels (onProc now t c e s) = currentModels s"
  "predictions (onProc now t c e s) = predictions s"
  "length (ticks (onProc now t c e s)) = length (ticks s)"
  by (simp_all add: onProc_def Let_def split: option.splits sum.splits)

lemma onFetch_fields [simp]:
  "cameras (onFetch now t c h s) = cameras s"
  "currentModels (onFetch now t c h s) = currentModels s"
  "systemErrors (onFetch now t c h s) = systemErrors s"
  "length (ticks (onFetch now t c h s)) = length (ticks s)"
  by (simp_all add: onFetch_def)

lemma predictionLoop_fields [simp]:
  "cameras (predictionLoop s) = cameras s"
  "currentModels (predictionLoop s) = currentModels s"
  "currentModelIndex (predictionLoop s) = currentModelIndex s"
  "predictions (predictionLoop s) = predictions s"
  "systemErrors (predictionLoop s) = systemErrors s"
  by (simp_all add: predictionLoop_def)

lemma step_cameras [simp]: "cameras (step now e s) = cameras s"
  by (cases e) simp_all

lemma step_currentModels [simp]: "currentModels (step now e s) = currentModels s"
  by (cases e) simp_all

lemma run_Nil [simp]: "run [] s = s"
  by (simp add: run_def)

lemma run_snoc: "run (evs @ [(now, e)]) s = step now e (run evs s)"
  by (simp add: run_def)

lemma run_cameras [simp]: "cameras (run evs s) = cameras s"
proof (induction evs rule: rev_induct)
  case Nil
  show ?case by simp
next
  case (snoc x evs)
  then show ?case by (cases x) (simp add: run_snoc)
qed

lemma run_currentModels [simp]: "currentModels (run evs s) = currentModels s"
proof (induction evs rule: rev_induct)
  case Nil
  show ?case by simp
next
  case (snoc x evs)
  then show ?case by (cases x) (simp add: run_snoc)
qed

lemma sendPrediction_bounded:
  "length (predictions s) \<le> 100 \<Longrightarrow>
   length (predictions (sendPrediction now cam m h s)) \<le> 100"
  by (simp add: sendPrediction_def addPrediction_take split: option.splits)

lemma step_predictions_bounded:
  "length (predictions s) \<le> 100 \<Longrightarrow> length (predictions (step now e s)) \<le> 100"
  by (cases e) (simp_all add: onFetch_def sendPrediction_bounded)

lemma run_predictions_bounded:
  "length (predictions s) \<le> 100 \<Longrightarrow> length (predictions (run evs s)) \<le> 100"
proof (induction evs rule: rev_induct)
  case Nil
  then show ?case by simp
next
  case (snoc x evs)
  then show ?case by (cases x) (simp add: run_snoc step_predictions_bounded)
qed

lemma reachable_predictions_bounded:
  "length (predictions (run evs (initialize cams models))) \<le> 100"
  by (rule run_predictions_bounded) (simp add: initialize_def)

lemma step_fetch_success:
  assumes "t < length (ticks s)" and "c < length (tasks (ticks s ! t))"
    and "c < length (cameras s)" and "stage (tasks (ticks s ! t) ! c) = AwaitFetch"
    and "fetchResult h = Some r"
  shows "predictions (step now (FetchSettles t c h) s) =
           take 100 (\<lparr>cameraId = cam_id (cameras s ! c), model = tickModel (ticks s ! t),
                      timestamp = now, result = r\<rparr> # predictions s)"
  using assms by (simp add: onFetch_def sendPrediction_def addPrediction_take)

lemma uploading_ready:
  "0 < length (ticks uploading) \<and> 0 < length (tasks (ticks uploading ! 0)) \<and>
   0 < length (cameras uploading) \<and> stage (tasks (ticks uploading ! 0) ! 0) = AwaitFetch \<and>
   cameras uploading = [cam0] \<and> tickModel (ticks uploading ! 0) = Some ''A'' \<and>
   predictions uploading = []"
  by (simp add: uploading_def ev_defs cam0_def jpeg_def)

section \<open>Counting finished calls\<close>





lemma doneCount_fields [simp]:
  "doneCount (s\<lparr>systemErrors := es\<rparr>) = doneCount s"
  "doneCount (s\<lparr>predictions := ps\<rparr>) = doneCount s"
  "doneCount (s\<lparr>currentModelIndex := i\<rparr>) = doneCount s"
  by (simp_all add: doneCount_def)

lemma doneCount_sendPrediction [simp]:
  "doneCount (sendPrediction now cam m h s) = doneCount s"
  by (simp add: doneCount_def)















lemma predictionLoop_starts:
  assumes "cameras s \<noteq> []" and "currentModels s \<noteq> []" and "c < length (cameras s)"
  shows "capturing (predictionLoop s) c = capturing s c + 1"
    and "inFlight (predictionLoop s) c = inFlight s c + 1"
    and "length (ticks (predictionLoop s)) = length (ticks s) + 1"
  using assms by (simp_all add: predictionLoop_def capturing_def inFlight_def)

lemma predictionLoop_guard:
  "cameras s = [] \<or> currentModels s = [] \<Longrightarrow> predictionLoop s = s"
  by (auto simp: predictionLoop_def)









lemma step_fetch_systemErrors:
  "systemErrors (step now (FetchSettles t c h) s) = systemErrors s"
  by simp


section \<open>The prediction buffer\<close>

text \<open>
  Claim C7. Every successful prediction puts its record at the front of the prediction
  buffer, which is then cut to its first 100 entries, so the newest record comes first
  and the oldest is the one dropped; after any sequence of events from the initial
  state, and after any sequence of insertions into the empty buffer, the buffer holds at
  most 100 records.
\<close>

theorem prediction_buffer_capacity:
  "(t < length (ticks s) \<and> c < length (tasks (ticks s ! t)) \<and> c < length (cameras s) \<and>
    stage (tasks (ticks s ! t) ! c) = AwaitFetch \<and> fetchResult h = Some r \<longrightarrow>
      predictions (step now (FetchSettles t c h) s) =
        take 100 (\<lparr>cameraId = cam_id (cameras s ! c), model = tickModel (ticks s ! t),
                   timestamp = now, result = r\<rparr> # predictions s)) \<and>
   length (predictions (run evs (initialize cams models))) \<le> 100 \<and>
   fold addPrediction ps [] = take 100 (rev ps) \<and>
   api_predictions s = predictions s"
proof -
  have "fold addPrediction ps [] = take 100 (rev ps @ [])"
    by (rule fold_addPrediction) simp
  then show ?thesis
    using step_fetch_success [of t s c h r now] reachable_predictions_bounded [of evs cams models]
    by (simp add: api_predictions_def)
qed

theorem prediction_buffer_capacity_witness:
  "0 < length (ticks uploading) \<and> 0 < length (tasks (ticks uploading ! 0)) \<and>
   0 < length (cameras uploading) \<and> stage (tasks (ticks uploading ! 0) ! 0) = AwaitFetch \<and>
   fetchResult (Response 200 (Some (JString ''healthy''))) = Some (JString ''healthy'') \<and>
   predictions (step 2900 (FetchSettles 0 0 (Response 200 (Some (JString ''healthy'')))) uploading) =
     [\<lparr>cameraId = 0, model = Some ''A'', timestamp = 2900, result = JString ''healthy''\<rparr>]"
  using prediction_buffer_capacity
    [of 0 uploading 0 "Response 200 (Some (JString ''healthy''))" "JString ''healthy''" 2900
        "[]" "[]" "[]" "[]"]
    uploading_ready
  by (simp add: cam0_def)

section \<open>The status route\<close>

text \<open>
  Claim C10. \<open>totalPredictions\<close> of \<^verbatim>\<open>GET /api/status\<close> is the current length of the
  prediction buffer; after any sequence of events from the initial state it is at most
  100; and it is not a count of all predictions made: a successful prediction that
  arrives when the buffer holds 100 records leaves it at 100.
\<close>

theorem status_totalPredictions:
  "totalPredictions (api_status s) = length (predictions s) \<and>
   totalPredictions (api_status (run evs (initialize cams models))) \<le> 100 \<and>
   (t < length (ticks s) \<and> c < length (tasks (ticks s ! t)) \<and> c < length (cameras s) \<and>
    stage (tasks (ticks s ! t) ! c) = AwaitFetch \<and> fetchResult h = Some r \<and>
    length (predictions s) = 100 \<longrightarrow>
      totalPredictions (api_status (step now (FetchSettles t c h) s)) = 100)"
  using step_fetch_success [of t s c h r now] reachable_predictions_bounded [of evs cams models]
  by (simp add: api_status_def)

theorem status_totalPredictions_witness:
  "0 < length (ticks uploadingFull) \<and> 0 < length (tasks (ticks uploadingFull ! 0)) \<and>
   0 < length (cameras uploadingFull) \<and>
   stage (tasks (ticks uploadingFull ! 0) ! 0) = AwaitFetch \<and>
   fetchResult (Response 200 (Some JNull)) = Some JNull \<and>
   length (predictions uploadingFull) = 100 \<and>
   totalPredictions
     (api_status (step 2900 (FetchSettles 0 0 (Response 200 (Some JNull))) uploadingFull)) = 100"
  using status_totalPredictions
    [of uploadingFull "[]" "[]" "[]" 0 0 "Response 200 (Some JNull)" JNull 2900]
    uploading_ready
  by (simp add: uploadingFull_def)

section \<open>The model roster\<close>

text \<open>
  Claim C9, as stated, fails. In V1 and V2 an empty array is truthy, so
  \<^verbatim>\<open>response.data || [...]\<close> returns it and the roster has length 0; in V3 a falsy body
  gives \<^verbatim>\<open>[]\<close>, not the default roster.
\<close>

theorem getModelList_empty_counterexample:
  "getModelList_v1 (Fulfilled (JArray [])) = JArray [] \<and>
   js_length (getModelList_v1 (Fulfilled (JArray []))) = Some 0 \<and>
   \<not> truthy JNull \<and> getModelList (Fulfilled JNull) = JArray [] \<and>
   js_length (getModelList (Fulfilled JNull)) = Some 0"
  by simp

text \<open>
  Claim C9, amended. When fetching the model list fails, every variant returns the
  default roster of two models. When the body is falsy, V1 and V2 return the default
  roster and V3 returns the empty roster. A truthy body is returned as it is, the empty
  array included, so the roster can be empty after initialization.
\<close>

theorem getModelList_fallback:
  "getModelList_v1 (Rejected e) = defaultModels \<and>
   getModelList (Rejected e) = defaultModels \<and>
   js_length defaultModels = Some 2 \<and>
   (\<not> truthy d \<longrightarrow>
      getModelList_v1 (Fulfilled d) = defaultModels \<and> getModelList (Fulfilled d) = JArray []) \<and>
   (truthy d' \<longrightarrow> getModelList_v1 (Fulfilled d') = d' \<and> getModelList (Fulfilled d') = d')"
  by (simp add: defaultModels_def)

theorem getModelList_fallback_witness:
  "\<not> truthy (JString []) \<and> truthy (JArray [JString ''late-blight'']) \<and>
   getModelList_v1 (Fulfilled (JString [])) = defaultModels \<and>
   getModelList (Fulfilled (JString [])) = JArray [] \<and>
   getModelList_v1 (Fulfilled (JArray [JString ''late-blight''])) = JArray [JString ''late-blight''] \<and>
   getModelList (Fulfilled (JArray [JString ''late-blight''])) = JArray [JString ''late-blight'']"
  using getModelList_fallback [of "[]" "JString []" "JArray [JString ''late-blight'']"]
  by simp

section \<open>Single-frame capture\<close>

lemma trim_Nil [simp]: "trim [] = []"
  by (simp add: trim_def)

lemma captureFrame_snoc:
  "captureFrame cid (evs @ [e]) = fst (onCapture cid e (captureFrame cid evs))"
  by (simp add: captureFrame_def)

lemma captureFrame_Nil: "captureFrame cid [] = spawnCapture"
  by (simp add: captureFrame_def)

lemma onCapture_hasData:
  "hasData (fst (onCapture cid e c)) = (hasData c \<or> isStdout e)"
  by (cases e) (simp_all add: settle_def)

lemma captureFrame_hasData:
  "hasData (captureFrame cid evs) = list_ex isStdout evs"
proof (induction evs rule: rev_induct)
  case Nil
  show ?case by (simp add: captureFrame_Nil spawnCapture_def)
next
  case (snoc e evs)
  then show ?case by (simp add: captureFrame_snoc onCapture_hasData)
qed

lemma onCapture_output_pending:
  "isOutput e \<Longrightarrow>
   settled (fst (onCapture cid e c)) = settled c \<and>
   killed (fst (onCapture cid e c)) = killed c"
  by (cases e) simp_all

lemma captureFrame_pending:
  "list_all isOutput evs \<Longrightarrow>
   settled (captureFrame cid evs) = None \<and> \<not> killed (captureFrame cid evs)"
proof (induction evs rule: rev_induct)
  case Nil
  show ?case by (simp add: captureFrame_Nil spawnCapture_def)
next
  case (snoc e evs)
  then show ?case by (simp add: captureFrame_snoc onCapture_output_pending)
qed

lemma captureFrame_timer:
  assumes "list_all isOutput evs"
  shows "(\<not> list_ex isStdout evs \<longrightarrow>
            killed (captureFrame cid (evs @ [TimerExpired])) \<and>
            settled (captureFrame cid (evs @ [TimerExpired])) =
              Some (Inl (TimeoutCapturing cid)))
       \<and> (list_ex isStdout evs \<longrightarrow>
            captureFrame cid (evs @ [TimerExpired]) = captureFrame cid evs)"
  using captureFrame_pending [OF assms, of cid] captureFrame_hasData [of cid evs]
  by (simp add: captureFrame_snoc settle_def)

lemma captureFrame_v1_snoc:
  "captureFrame_v1 (evs @ [e]) = onCapture_v1 e (captureFrame_v1 evs)"
  by (simp add: captureFrame_v1_def)

lemma captureFrame_v1_pending:
  "\<not> list_ex isClose_v1 evs \<Longrightarrow> settled_v1 (captureFrame_v1 evs) = None"
proof (induction evs rule: rev_induct)
  case Nil
  show ?case by (simp add: captureFrame_v1_def)
next
  case (snoc e evs)
  then show ?case by (cases e) (simp_all add: captureFrame_v1_snoc)
qed

text \<open>V3's \<^verbatim>\<open>'close'\<close> handler, reached with the promise pending, resolves exactly for
  exit code 0 with a chunk received and a non-empty buffer, and rejects with the capture
  error otherwise.\<close>

lemma onCapture_close:
  "settled c = None \<Longrightarrow>
   settled (fst (onCapture cid (Close code) c)) =
     (if code = Some 0 \<and> hasData c \<and> imageBuffer c \<noteq> []
      then Some (Inr (imageBuffer c))
      else Some (Inl (CaptureFailed cid code (trim (stderrOutput c)))))"
  by (simp add: settle_def)

text \<open>The message of a failed capture carries the trimmed stderr text.\<close>

lemma capture_failure_message:
  "settled (captureFrame 0 [Stderr '' /dev/video0: No such device\<newline>'', Close (Some 1)]) =
     Some (Inl (CaptureFailed 0 (Some 1) ''/dev/video0: No such device''))"
  by (simp add: captureFrame_def spawnCapture_def settle_def trim_def isSpace_def)

text \<open>
  Claim C3, as stated, fails. In V3 the timer's callback is guarded by
  \<^verbatim>\<open>if (!hasData)\<close>: a subprocess that has written a chunk and has not exited when
  the timer expires is not killed, and the promise stays pending. V1 has no timer: while
  the subprocess has not closed, the promise is pending.
\<close>

theorem capture_timeout_counterexample:
  "list_all isOutput [Stdout jpeg] \<and>
   \<not> killed (captureFrame 0 [Stdout jpeg, TimerExpired]) \<and>
   settled (captureFrame 0 [Stdout jpeg, TimerExpired]) = None \<and>
   settled_v1 (captureFrame_v1 [Stdout_v1 jpeg]) = None"
  by (simp add: captureFrame_def captureFrame_v1_def spawnCapture_def jpeg_def)

text \<open>
  Claim C3, amended. In V3, when the capture timer expires on a subprocess that has not
  exited: if no stdout chunk has arrived, the subprocess is sent SIGTERM and the capture
  fails with the timeout error; if a chunk has arrived, the timer changes nothing and the
  capture stays pending. V1 (and V2 on Linux) set no timer: the capture stays pending
  until \<^verbatim>\<open>'close'\<close>.
\<close>

theorem capture_timeout_guarded:
  "(list_all isOutput evs \<and> \<not> list_ex isStdout evs \<longrightarrow>
      killed (captureFrame cid (evs @ [TimerExpired])) \<and>
      settled (captureFrame cid (evs @ [TimerExpired])) = Some (Inl (TimeoutCapturing cid))) \<and>
   (list_all isOutput evs' \<and> list_ex isStdout evs' \<longrightarrow>
      captureFrame cid (evs' @ [TimerExpired]) = captureFrame cid evs' \<and>
      settled (captureFrame cid (evs' @ [TimerExpired])) = None \<and>
      \<not> killed (captureFrame cid (evs' @ [TimerExpired]))) \<and>
   (\<not> list_ex isClose_v1 evs1 \<longrightarrow> settled_v1 (captureFrame_v1 evs1) = None)"
  using captureFrame_timer [of evs cid] captureFrame_timer [of evs' cid]
    captureFrame_pending [of evs' cid] captureFrame_v1_pending [of evs1]
  by simp

theorem capture_timeout_guarded_witness:
  "list_all isOutput [Stderr ''ffmpeg version 6''] \<and>
   \<not> list_ex isStdout [Stderr ''ffmpeg version 6''] \<and>
   killed (captureFrame 0 ([Stderr ''ffmpeg version 6''] @ [TimerExpired])) \<and>
   settled (captureFrame 0 ([Stderr ''ffmpeg version 6''] @ [TimerExpired])) =
     Some (Inl (TimeoutCapturing 0)) \<and>
   list_all isOutput [Stdout jpeg] \<and> list_ex isStdout [Stdout jpeg] \<and>
   captureFrame 0 ([Stdout jpeg] @ [TimerExpired]) = captureFrame 0 [Stdout jpeg] \<and>
   \<not> list_ex isClose_v1 [Stdout_v1 jpeg] \<and>
   settled_v1 (captureFrame_v1 [Stdout_v1 jpeg]) = None"
  using capture_timeout_guarded
    [of "[Stderr ''ffmpeg version 6'']" 0 "[Stdout jpeg]" "[Stdout_v1 jpeg]"]
  by simp

text \<open>
  Claim C4 against V1's \<^verbatim>\<open>captureFrame\<close> (V2's \<^verbatim>\<open>'close'\<close> handler tests the exit code
  in the same way): a subprocess that exits with code 0 without having written anything
  resolves the promise with the empty buffer, where the claim has a capture error. On
  the same events V3's handler rejects with the capture error (\<open>onCapture_close\<close> is the
  general statement).
\<close>

theorem captureFrame_v1_resolves_empty:
  "settled_v1 (captureFrame_v1 [Close_v1 (Some 0)]) = Some (Inr []) \<and>
   settled (captureFrame 0 [Close (Some 0)]) = Some (Inl (CaptureFailed 0 (Some 0) []))"
  by (simp add: captureFrame_v1_def captureFrame_def spawnCapture_def settle_def)

section \<open>Overlapping calls of the prediction loop\<close>

lemmas example_defs =
  firstTick_def overlapping_def afterOverlap_def inTurn_def twoCams_def uploading_def
  cam0_def cam1_def jpeg_def

text \<open>
  Claim C2, as stated, fails. \<^verbatim>\<open>setInterval(predictionLoop, 2000)\<close> calls
  \<^verbatim>\<open>predictionLoop\<close> at every period and \<^verbatim>\<open>predictionLoop\<close> has no guard on
  outstanding work: when the timer fires while the capture of the first call is still
  running, a second call starts a second capture for the same camera.
\<close>

theorem tick_overlap_counterexample:
  "capturing firstTick 0 = 1 \<and> length (ticks firstTick) = 1 \<and>
   length (ticks (step 4000 TimerFires firstTick)) = 2 \<and>
   capturing (step 4000 TimerFires firstTick) 0 = 2 \<and>
   inFlight (step 4000 TimerFires firstTick) 0 = 2"
  by (simp add: example_defs ev_defs capturing_def inFlight_def)

text \<open>
  Claim C2, amended. Every timer fire runs \<^verbatim>\<open>predictionLoop\<close>, whatever is
  outstanding: with at least one camera and one model it starts a new call with one new
  capture for every camera, so for each camera the number of outstanding captures and of
  in-flight prediction cycles grows by one; only with no camera or no model does the
  tick change nothing.
\<close>

theorem timer_fire_starts_captures:
  "(cameras s \<noteq> [] \<and> currentModels s \<noteq> [] \<and> c < length (cameras s) \<longrightarrow>
      capturing (step now TimerFires s) c = capturing s c + 1 \<and>
      inFlight (step now TimerFires s) c = inFlight s c + 1 \<and>
      length (ticks (step now TimerFires s)) = length (ticks s) + 1) \<and>
   (cameras s' = [] \<or> currentModels s' = [] \<longrightarrow> step now TimerFires s' = s')"
  using predictionLoop_starts [of s c] predictionLoop_guard [of s']
  by simp

theorem timer_fire_starts_captures_witness:
  "cameras firstTick \<noteq> [] \<and> currentModels firstTick \<noteq> [] \<and> 0 < length (cameras firstTick) \<and>
   capturing firstTick 0 = 1 \<and>
   capturing (step 4000 TimerFires firstTick) 0 = 2 \<and>
   inFlight (step 4000 TimerFires firstTick) 0 = inFlight firstTick 0 + 1 \<and>
   (cameras (initialize [] [''A'']) = [] \<or> currentModels (initialize [] [''A'']) = []) \<and>
   step 4000 TimerFires (initialize [] [''A'']) = initialize [] [''A'']"
proof -
  have h: "cameras firstTick \<noteq> [] \<and> currentModels firstTick \<noteq> [] \<and>
      0 < length (cameras firstTick) \<and> capturing firstTick 0 = 1"
    by (simp add: example_defs ev_defs capturing_def)
  have h': "cameras (initialize [] [''A'']) = []"
    by (simp add: initialize_def)
  show ?thesis
    using timer_fire_starts_captures [of firstTick 0 4000 "initialize [] [''A'']"] h h'
    by simp
qed

section \<open>The model cursor\<close>




section \<open>Fault isolation within a call\<close>




section \<open>System errors\<close>

text \<open>A capture that fails at \<^verbatim>\<open>'close'\<close> while the arrow function awaits it reaches
  \<^verbatim>\<open>addSystemError\<close> twice: in the handler and in the \<^verbatim>\<open>catch\<close> of
  \<^verbatim>\<open>predictionLoop\<close>.\<close>

lemma capture_failure_recorded:
  "systemErrors (step 2500 (Proc 0 0 (Close (Some 1))) twoCams) =
     [\<lparr>err_cameraId = 0, err_error = CameraCaptureFailed 0 (CaptureFailed 0 (Some 1) []),
       err_timestamp = 2500\<rparr>,
      \<lparr>err_cameraId = 0, err_error = CaptureFailed 0 (Some 1) [], err_timestamp = 2500\<rparr>]"
  by (simp add: example_defs ev_defs)

text \<open>
  Claim C1 against V3: no settling of an upload ever changes \<^verbatim>\<open>systemErrors\<close>. For one
  camera whose capture succeeded and whose upload is answered with status 500, the call
  completes with nothing in the error buffer and nothing in the prediction buffer.
\<close>

theorem inference_failure_not_recorded:
  "systemErrors (step now (FetchSettles t c h) s) = systemErrors s \<and>
   fetchResult (Response 500 None) = None \<and>
   stage (tasks (ticks uploading ! 0) ! 0) = AwaitFetch \<and>
   systemErrors (step 2900 (FetchSettles 0 0 (Response 500 None)) uploading) = [] \<and>
   api_errors (step 2900 (FetchSettles 0 0 (Response 500 None)) uploading) = [] \<and>
   predictions (step 2900 (FetchSettles 0 0 (Response 500 None)) uploading) = [] \<and>
   tick_done (ticks (step 2900 (FetchSettles 0 0 (Response 500 None)) uploading) ! 0)"
  using step_fetch_systemErrors [of now t c h s]
  by (simp add: example_defs ev_defs api_errors_def)

section \<open>Resolution detection\<close>








lemma res_toResolution [simp]: "res (toResolution t) = t"
  by (simp add: toResolution_def Let_def)
































lemma discreteAt_Nil [simp]: "\<not> discreteAt [] i"
  by (simp add: discreteAt_def)
























end
